theory Spec2Isabelle
  imports Main "HOL-Library.Word"
begin

section \<open>Data model\<close>

text \<open>
  The repository holds two C templates, \<^verbatim>\<open>compiler_wrapper.c\<close> and
  \<^verbatim>\<open>tool_wrapper.c\<close>. Each consists of a single \<^verbatim>\<open>main\<close> that records the
  name of the shadowed native tool in a scratch file under \<^verbatim>\<open>/tmp\<close> and then calls
  \<^verbatim>\<open>execv\<close> on the toolchain tool.

  A wrapper instance is the pair of strings that the template generator substitutes:
  \<open>toolchain_tool\<close> is the value of the literal
  \<^verbatim>\<open>"{{ toolchain_bin }}/{{ toolchain_program }}"\<close> and \<open>native_program\<close> the text put
  in place of \<^verbatim>\<open>{{ native_program }}\<close>.
\<close>

record wrapper_instance =
  toolchain_tool :: string
  native_program :: string

text \<open>
  A \<^verbatim>\<open>char *\<close> is either the null pointer or points to a string. The cells of the
  variable length array \<^verbatim>\<open>char *new_argv[argc]\<close> are a partial map from indices to
  pointers: an index outside the domain is a cell that no statement has stored to.
\<close>

datatype cptr = Null | Ptr string

type_synonym argvec = "nat \<rightharpoonup> cptr"

text \<open>The file system maps a path to the contents of the file of that name.\<close>

type_synonym filesystem = "string \<rightharpoonup> string"

text \<open>
  A character array together with whether the implementation lets the program store
  into it. A string literal is an array that must not be modified (C11 6.4.5p7); on the
  platform of the wrappers it lives in a read-only segment.
\<close>

record cstring =
  chars :: string
  writable :: bool

text \<open>
  What the operating system answers to the calls of one invocation. Each call is made
  at most once per invocation, so one answer per call suffices.
  \<^item> \<open>files\<close>: the files that exist when the wrapper starts;
  \<^item> \<open>getrandom\<close>: \<open>None\<close> when the system call returns -1, otherwise the value of
    \<^verbatim>\<open>buf[0]\<close> after the call;
  \<^item> \<open>fopen_ok\<close>: whether \<^verbatim>\<open>fopen(path, "w")\<close> returns a stream;
  \<^item> \<open>write_ok\<close>: whether the system call that writes the record to the scratch file
    transmits its bytes. \<^verbatim>\<open>dprintf\<close> makes that call itself. \<^verbatim>\<open>fprintf\<close> on the
    stream that \<^verbatim>\<open>fopen\<close> returned, which is fully buffered, only fills the
    buffer: the call is made when \<^verbatim>\<open>fclose\<close> flushes it;
  \<^item> \<open>close_ok\<close>: whether closing the descriptor of the scratch file succeeds;
  \<^item> \<open>execv_ok\<close>: whether \<^verbatim>\<open>execv(path, _)\<close> replaces the image (it returns -1
    otherwise, for instance when the path does not exist or is not executable).
\<close>

record os =
  files :: filesystem
  getrandom :: "32 word option"
  fopen_ok :: "string \<Rightarrow> bool"
  write_ok :: bool
  close_ok :: bool
  execv_ok :: "string \<Rightarrow> bool"

text \<open>The result of \<^verbatim>\<open>mkstemp\<close>: a fault while storing into the template, the
  return value -1, or a descriptor open on the newly created file of the given name.\<close>

datatype mkstemp_result = MkFault | MkError | MkFd string

text \<open>The library and system calls of a run, in program order.\<close>

datatype step =
    Getrandom
  | Perror string
  | Fopen string
  | Mkstemp string
  | Fprintf string
  | Dprintf string
  | Fclose
  | Close
  | Execv string argvec

text \<open>
  How a run ends: \<^verbatim>\<open>exit(n)\<close> or \<^verbatim>\<open>return n\<close> from \<^verbatim>\<open>main\<close>; control reaching
  the closing brace of \<^verbatim>\<open>main\<close>; \<^verbatim>\<open>execv\<close> replacing the process image; a
  memory fault; or behaviour that the C standard leaves undefined. \<open>Image p v\<close> holds
  the path and the cells of the array that the program stored; the arguments that the
  new image receives are what \<^verbatim>\<open>execv\<close> reads from that array (\<open>execv_reads\<close>
  below).
\<close>

datatype outcome = Exit int | EndOfMain | Image string argvec | Fault | Undefined

text \<open>
  The exit status the invoking build system observes from the wrapper's own code.
  Reaching the closing brace of a \<^verbatim>\<open>main\<close> whose return type is \<^verbatim>\<open>int\<close> returns 0
  (C99 and C11, 5.1.2.2.3). After image replacement the status is the toolchain tool's,
  and a faulting process is killed by a signal.
\<close>

fun exit_status :: "outcome \<Rightarrow> int option" where
  "exit_status (Exit n) = Some n"
| "exit_status EndOfMain = Some 0"
| "exit_status (Image p v) = None"
| "exit_status Fault = None"
| "exit_status Undefined = None"

text \<open>
  A finished run: the calls made, the file system left behind, the file behind the
  scratch handle if that handle is still open, and how the run ended.
\<close>

record run =
  steps :: "step list"
  disk :: filesystem
  handle :: "string option"
  result :: outcome

section \<open>Library functions used by the wrappers\<close>

subsection \<open>Formatted output\<close>

text \<open>The \<^verbatim>\<open>%d\<close> conversion: the decimal digits of the value, after a minus sign when it
  is negative.\<close>

definition digit :: "nat \<Rightarrow> char" where
  "digit d = ''0123456789'' ! d"

function dec :: "nat \<Rightarrow> string" where
  "dec n = (if n < 10 then [digit n] else dec (n div 10) @ [digit (n mod 10)])"
  by pat_completeness auto
termination
  by (relation "measure (\<lambda>n. n)") auto

declare dec.simps [simp del]

definition fmt_d :: "int \<Rightarrow> string" where
  "fmt_d i = (if i < 0 then CHR ''-'' # dec (nat (- i)) else dec (nat i))"

text \<open>
  A format string printed with no further arguments, as in
  \<^verbatim>\<open>fprintf(fp, "{{ native_program }}\n")\<close>: ordinary characters are copied,
  \<^verbatim>\<open>%%\<close> prints one percent sign, and any other conversion specification asks for an
  argument that was not passed, which is undefined (\<open>None\<close>).
\<close>

fun printf0 :: "string \<Rightarrow> string option" where
  "printf0 [] = Some []"
| "printf0 [c] = (if c = CHR ''%'' then None else Some [c])"
| "printf0 (c # d # cs) =
     (if c = CHR ''%''
      then (if d = CHR ''%'' then map_option ((#) c) (printf0 cs) else None)
      else map_option ((#) c) (printf0 (d # cs)))"

subsection \<open>Absolute value of a 32-bit int\<close>

text \<open>
  \<^verbatim>\<open>abs\<close> on a two's complement \<^verbatim>\<open>int\<close>. The negation wraps, so the most negative
  value is returned unchanged, as the C library of the wrappers' platform does.
\<close>

definition c_abs :: "32 word \<Rightarrow> 32 word" where
  "c_abs x = (if sint x < 0 then - x else x)"

section \<open>The compiler wrapper\<close>

text \<open>
  Line 40 of \<^verbatim>\<open>compiler_wrapper.c\<close> formats \<^verbatim>\<open>"/tmp/tuscan-native-%d"\<close> with the
  absolute value of the first random word, read as an \<^verbatim>\<open>int\<close>. This is the string
  stored into \<^verbatim>\<open>f_name\<close>, without its terminator.
\<close>

definition f_name :: "32 word \<Rightarrow> string" where
  "f_name buf0 = ''/tmp/tuscan-native-'' @ fmt_d (sint (c_abs buf0))"

text \<open>
  Lines 57 to 59 of \<^verbatim>\<open>compiler_wrapper.c\<close> and 44 to 46 of \<^verbatim>\<open>tool_wrapper.c\<close>:
  \<^verbatim>\<open>for (i = 1; i < argc; i++) new_argv[i] = argv[i];\<close>. The counter is
  \<^verbatim>\<open>unsigned\<close> in the first file and \<^verbatim>\<open>int\<close> in the second; it stays below
  \<open>argc\<close>, so it never wraps and a natural number models both.
\<close>

function copy_args :: "nat \<Rightarrow> nat \<Rightarrow> string list \<Rightarrow> argvec \<Rightarrow> argvec" where
  "copy_args i argc argv new_argv =
     (if i < argc then copy_args (i + 1) argc argv (new_argv(i \<mapsto> Ptr (argv ! i)))
      else new_argv)"
  by pat_completeness auto
termination
  by (relation "measure (\<lambda>(i, argc, argv, new_argv). argc - i)") auto

declare copy_args.simps [simp del]

text \<open>
  \<^verbatim>\<open>fclose\<close> on the buffered stream writes the buffered record and closes the
  descriptor; it returns \<^verbatim>\<open>EOF\<close> when either fails.
\<close>

definition fclose_ok :: "os \<Rightarrow> bool" where
  "fclose_ok sys = (write_ok sys \<and> close_ok sys)"

text \<open>
  \<^verbatim>\<open>main\<close> of \<^verbatim>\<open>compiler_wrapper.c\<close>, statement by statement. \<open>argv\<close> holds the
  \<open>argc\<close> strings of the invocation, so \<open>argc\<close> is its length.
  \<^item> Lines 35 to 38: \<^verbatim>\<open>getrandom\<close>; on -1, \<^verbatim>\<open>perror\<close> and \<^verbatim>\<open>exit(1)\<close>.
  \<^item> Lines 39 and 40: \<^verbatim>\<open>sprintf\<close> into \<^verbatim>\<open>char f_name[32]\<close>; a string that does
    not fit with its terminator would overflow the array.
  \<^item> Lines 42 to 46: \<^verbatim>\<open>fopen(f_name, "w")\<close> creates the file or truncates the
    existing one; on a null result, \<^verbatim>\<open>perror\<close> and \<^verbatim>\<open>exit(1)\<close>.
  \<^item> Line 47: \<^verbatim>\<open>fprintf\<close> with the native program's name inside the format string;
    the record goes to the stream's buffer and the return value is not looked at.
  \<^item> Lines 48 to 51: \<^verbatim>\<open>fclose\<close>, which writes the buffer to the file and releases
    the stream whether or not it succeeds; on \<^verbatim>\<open>EOF\<close>, \<^verbatim>\<open>perror\<close> and
    \<^verbatim>\<open>exit(1)\<close>.
  \<^item> Line 54: a variable length array of \<open>argc\<close> pointers; its size must be positive
    (C11 6.7.6.2p5).
  \<^item> Lines 56 to 59: cell 0 and the copy loop.
  \<^item> Line 60: \<^verbatim>\<open>execv\<close>; when it returns, control reaches the closing brace.
\<close>

definition compiler_wrapper_main :: "wrapper_instance \<Rightarrow> os \<Rightarrow> string list \<Rightarrow> run" where
  "compiler_wrapper_main inst sys argv =
    (case getrandom sys of
      None \<Rightarrow>
        \<lparr>steps = [Getrandom, Perror ''tuscan: compiler wrapper: getrandom''],
         disk = files sys, handle = None, result = Exit 1\<rparr>
    | Some buf0 \<Rightarrow>
        if 32 < length (f_name buf0) + 1 then
          \<lparr>steps = [Getrandom], disk = files sys, handle = None, result = Undefined\<rparr>
        else if \<not> fopen_ok sys (f_name buf0) then
          \<lparr>steps = [Getrandom, Fopen (f_name buf0),
                    Perror ''tuscan: compiler wrapper: fopen''],
           disk = files sys, handle = None, result = Exit 1\<rparr>
        else
          (case printf0 (native_program inst @ ''\<newline>'') of
            None \<Rightarrow>
              \<lparr>steps = [Getrandom, Fopen (f_name buf0)],
               disk = (files sys)(f_name buf0 \<mapsto> []),
               handle = Some (f_name buf0), result = Undefined\<rparr>
          | Some out \<Rightarrow>
              let disk1 = (files sys)(f_name buf0 \<mapsto> (if write_ok sys then out else []));
                  recorded = [Getrandom, Fopen (f_name buf0), Fprintf out, Fclose]
              in
                if \<not> fclose_ok sys then
                  \<lparr>steps = recorded @ [Perror ''tuscan: compiler wrapper: fclose''],
                   disk = disk1, handle = None, result = Exit 1\<rparr>
                else if length argv = 0 then
                  \<lparr>steps = recorded, disk = disk1, handle = None, result = Undefined\<rparr>
                else
                  let new_argv =
                        copy_args 1 (length argv) argv [0 \<mapsto> Ptr (toolchain_tool inst)];
                      called = recorded @ [Execv (toolchain_tool inst) new_argv]
                  in
                    if execv_ok sys (toolchain_tool inst) then
                      \<lparr>steps = called, disk = disk1, handle = None,
                       result = Image (toolchain_tool inst) new_argv\<rparr>
                    else
                      \<lparr>steps = called, disk = disk1, handle = None,
                       result = EndOfMain\<rparr>))"

section \<open>The tool wrapper\<close>

text \<open>Line 30 of \<^verbatim>\<open>tool_wrapper.c\<close> passes a string literal to \<^verbatim>\<open>mkstemp\<close>.\<close>

definition tool_template :: cstring where
  "tool_template = \<lparr>chars = ''/tmp/tuscan-native-XXXXXX'', writable = False\<rparr>"

text \<open>
  \<^verbatim>\<open>main\<close> of \<^verbatim>\<open>tool_wrapper.c\<close>. The C library's \<^verbatim>\<open>mkstemp\<close> is a parameter:
  it sees the file system and the template object.
  \<^item> Lines 30 to 34: \<^verbatim>\<open>mkstemp\<close>; on -1, \<^verbatim>\<open>perror\<close> and \<^verbatim>\<open>return 1\<close>.
  \<^item> Line 35: \<^verbatim>\<open>dprintf\<close> with the native program's name inside the format string;
    its return value is not looked at.
  \<^item> Lines 36 to 39: \<^verbatim>\<open>close\<close>, which releases the descriptor; on -1,
    \<^verbatim>\<open>perror\<close> and \<^verbatim>\<open>return 1\<close>.
  \<^item> Lines 41 to 47: the same argument vector and \<^verbatim>\<open>execv\<close> as in the compiler
    wrapper.
\<close>

definition tool_wrapper_main ::
    "(filesystem \<Rightarrow> cstring \<Rightarrow> mkstemp_result) \<Rightarrow> wrapper_instance \<Rightarrow> os \<Rightarrow> string list \<Rightarrow> run" where
  "tool_wrapper_main mkstemp inst sys argv =
    (case mkstemp (files sys) tool_template of
      MkFault \<Rightarrow>
        \<lparr>steps = [Mkstemp (chars tool_template)],
         disk = files sys, handle = None, result = Fault\<rparr>
    | MkError \<Rightarrow>
        \<lparr>steps = [Mkstemp (chars tool_template), Perror ''tuscan: mkstemp''],
         disk = files sys, handle = None, result = Exit 1\<rparr>
    | MkFd name \<Rightarrow>
        (case printf0 (native_program inst @ ''\<newline>'') of
          None \<Rightarrow>
            \<lparr>steps = [Mkstemp (chars tool_template)],
             disk = (files sys)(name \<mapsto> []), handle = Some name, result = Undefined\<rparr>
        | Some out \<Rightarrow>
            let disk1 = (files sys)(name \<mapsto> (if write_ok sys then out else []));
                recorded = [Mkstemp (chars tool_template), Dprintf out, Close]
            in
              if \<not> close_ok sys then
                \<lparr>steps = recorded @ [Perror ''tuscan: close''],
                 disk = disk1, handle = None, result = Exit 1\<rparr>
              else if length argv = 0 then
                \<lparr>steps = recorded, disk = disk1, handle = None, result = Undefined\<rparr>
              else
                let new_argv =
                      copy_args 1 (length argv) argv [0 \<mapsto> Ptr (toolchain_tool inst)];
                    called = recorded @ [Execv (toolchain_tool inst) new_argv]
                in
                  if execv_ok sys (toolchain_tool inst) then
                    \<lparr>steps = called, disk = disk1, handle = None,
                     result = Image (toolchain_tool inst) new_argv\<rparr>
                  else
                    \<lparr>steps = called, disk = disk1, handle = None,
                     result = EndOfMain\<rparr>))"

text \<open>
  \<^verbatim>\<open>mkstemp\<close> as POSIX and the Linux manual describe it: the last six characters of
  the template must be \<^verbatim>\<open>XXXXXX\<close> (otherwise -1 with \<^verbatim>\<open>EINVAL\<close>); the function
  replaces them in place, so the template must be an array the program may store into;
  it creates the file exclusively, moving to the next candidate while the name exists,
  for a bounded number of candidates. \<open>suffixes\<close> are the candidates of one call and
  \<open>creatable\<close> says whether the directory permits creating the name.
\<close>

definition mkstemp_posix ::
    "string list \<Rightarrow> (string \<Rightarrow> bool) \<Rightarrow> filesystem \<Rightarrow> cstring \<Rightarrow> mkstemp_result" where
  "mkstemp_posix suffixes creatable fs t =
    (let s = chars t; stem = take (length s - 6) s in
      if drop (length s - 6) s \<noteq> ''XXXXXX'' then MkError
      else if \<not> writable t then MkFault
      else
        (case find (\<lambda>name. fs name = None) (map ((@) stem) suffixes) of
          None \<Rightarrow> MkError
        | Some name \<Rightarrow> if creatable name then MkFd name else MkError))"

section \<open>Vocabulary of the properties\<close>

text \<open>The steps that write the record, close the scratch handle and call \<^verbatim>\<open>execv\<close>.\<close>

fun writes_record :: "step \<Rightarrow> bool" where
  "writes_record (Fprintf s) = True"
| "writes_record (Dprintf s) = True"
| "writes_record _ = False"

fun closes_record :: "step \<Rightarrow> bool" where
  "closes_record Fclose = True"
| "closes_record Close = True"
| "closes_record _ = False"

fun is_execv :: "step \<Rightarrow> bool" where
  "is_execv (Execv p v) = True"
| "is_execv _ = False"

text \<open>
  \<^verbatim>\<open>execv\<close> requires that the array of \<open>argc\<close> argument pointers is followed by a
  null pointer, that is, that cell \<open>argc\<close> holds \<open>Null\<close>.
\<close>

definition execv_null_terminated :: "nat \<Rightarrow> argvec \<Rightarrow> bool" where
  "execv_null_terminated argc v = (v argc = Some Null)"

text \<open>
  \<^verbatim>\<open>execv\<close> is given the address of the array and reads pointers from it until it
  meets a null pointer; the pointers before that one are the arguments of the new
  image. It does not know \<open>argc\<close>: after the \<open>argc\<close> cells of the array it goes on
  reading the memory that follows the array, \<open>beyond\<close>. The result is \<open>None\<close> when it
  reads a cell of the array that was never stored to, or finds no null pointer in the
  memory it can read.
\<close>

fun scan_argv :: "cptr option list \<Rightarrow> cptr list option" where
  "scan_argv [] = None"
| "scan_argv (None # cells) = None"
| "scan_argv (Some Null # cells) = Some []"
| "scan_argv (Some (Ptr s) # cells) = map_option ((#) (Ptr s)) (scan_argv cells)"

definition execv_reads :: "nat \<Rightarrow> argvec \<Rightarrow> cptr list \<Rightarrow> cptr list option" where
  "execv_reads argc v beyond = scan_argv (map v [0..<argc] @ map Some beyond)"

subsection \<open>Example inputs\<close>

text \<open>
  The instance of the specification's example (toolchain tool \<open>P\<close>, native program
  \<open>S\<close>), an instance whose native program name holds percent signs, an operating
  system in which every call succeeds and the first random word is 1, and a stand-in
  for \<^verbatim>\<open>mkstemp\<close> that returns a descriptor without storing into the template.
  The stand-in only serves to run the statements of the tool wrapper that follow the
  allocation; \<^verbatim>\<open>mkstemp\<close> as described below the tool wrapper never gets that far
  on the string literal.
\<close>

definition example_instance :: wrapper_instance where
  "example_instance = \<lparr>toolchain_tool = ''P'', native_program = ''S''\<rparr>"

definition percent_instance :: wrapper_instance where
  "percent_instance = \<lparr>toolchain_tool = ''P'', native_program = ''%%''\<rparr>"

definition all_ok :: os where
  "all_ok = \<lparr>files = Map.empty, getrandom = Some 1, fopen_ok = (\<lambda>path. True),
     write_ok = True, close_ok = True, execv_ok = (\<lambda>path. True)\<rparr>"

definition mkstemp_fd :: "filesystem \<Rightarrow> cstring \<Rightarrow> mkstemp_result" where
  "mkstemp_fd fs t = MkFd ''/tmp/tuscan-native-a1B2c3''"

section \<open>Auxiliary facts\<close>

subsection \<open>Decimal rendering\<close>

lemma dec_len: "0 < k \<Longrightarrow> n < 10 ^ k \<Longrightarrow> length (dec n) \<le> k"
proof (induction n arbitrary: k rule: dec.induct)
  case (1 n)
  show ?case
  proof (cases "n < 10")
    case True
    then show ?thesis using 1(2) by (simp add: dec.simps)
  next
    case False
    then obtain j where k: "k = Suc j" using 1(2) by (cases k) auto
    from False 1(3) k have "0 < j" by (cases j) auto
    moreover from 1(3) k have "n div 10 < 10 ^ j"
      by (simp add: less_mult_imp_div_less mult.commute)
    ultimately have "length (dec (n div 10)) \<le> j" using 1(1)[OF False] by blast
    then show ?thesis using False k by (simp add: dec.simps)
  qed
qed

lemma fmt_d_len:
  assumes "- (2 ^ 31) \<le> i" and "i < 2 ^ 31"
  shows "length (fmt_d i) \<le> 11"
proof (cases "i < 0")
  case True
  have "nat (- i) < 10 ^ 10" using assms True by simp
  then have "length (dec (nat (- i))) \<le> 10" by (intro dec_len) simp_all
  then show ?thesis using True by (simp add: fmt_d_def)
next
  case False
  have "nat i < 10 ^ 10" using assms False by simp
  then have "length (dec (nat i)) \<le> 10" by (intro dec_len) simp_all
  then show ?thesis using False by (simp add: fmt_d_def)
qed

lemma f_name_len: "length (f_name buf0) \<le> 30"
proof -
  have "- (2 ^ 31) \<le> sint (c_abs buf0)"
    using sint_ge [of "c_abs buf0"] by simp
  moreover have "sint (c_abs buf0) < 2 ^ 31"
    using sint_lt [of "c_abs buf0"] by simp
  ultimately have "length (fmt_d (sint (c_abs buf0))) \<le> 11"
    by (rule fmt_d_len)
  then show ?thesis by (simp add: f_name_def)
qed

lemma f_name_no_overflow: "\<not> 31 < length (f_name buf0)"
  using f_name_len [of buf0] by simp

lemma f_name_1: "f_name 1 = ''/tmp/tuscan-native-1''"
  by (simp add: f_name_def fmt_d_def c_abs_def dec.simps digit_def)

lemma f_name_minus_1: "f_name (- 1) = ''/tmp/tuscan-native-1''"
  by (simp add: f_name_def fmt_d_def c_abs_def dec.simps digit_def)

lemma f_name_int_min: "f_name (- 2147483648) = ''/tmp/tuscan-native--2147483648''"
  by (simp add: f_name_def fmt_d_def c_abs_def dec.simps digit_def)

text \<open>\<^verbatim>\<open>abs\<close> does not tell a word from its negation, and neither does the name.\<close>

lemma c_abs_neg: "c_abs (- w) = c_abs w"
proof -
  have lo: "- (2 ^ 31) \<le> sint w" using sint_ge [of w] by simp
  have hi: "sint w < 2 ^ 31" using sint_lt [of w] by simp
  have neg: "sint (- w) = signed_take_bit 31 (- sint w)"
    by (simp add: sint_word_minus)
  consider "sint w = 0" | "sint w = - (2 ^ 31)"
    | "- (2 ^ 31) < sint w" "sint w < 0" | "0 < sint w"
    using lo by linarith
  then show ?thesis
  proof cases
    case 1
    then have "w = 0" by (simp add: signed_eq_0_iff)
    then show ?thesis by simp
  next
    case 2
    then have "sint (- w) = signed_take_bit 31 (2 ^ 31 :: int)" using neg by simp
    also have "\<dots> = - (2 ^ 31)"
      by (simp add: signed_take_bit_eq_take_bit_minus take_bit_eq_mod bit_iff_odd)
    finally have "sint (- w) = sint w" using 2 by simp
    then have "- w = w" by (rule signed_word_eqI)
    then show ?thesis by (rule arg_cong)
  next
    case 3
    then have "signed_take_bit 31 (- sint w) = - sint w"
      by (intro signed_take_bit_int_eq_self) simp_all
    then have "sint (- w) = - sint w" using neg by simp
    then show ?thesis using 3 by (simp add: c_abs_def)
  next
    case 4
    then have "signed_take_bit 31 (- sint w) = - sint w"
      using hi by (intro signed_take_bit_int_eq_self) simp_all
    then have "sint (- w) = - sint w" using neg by simp
    then show ?thesis using 4 by (simp add: c_abs_def)
  qed
qed

lemma f_name_neg: "f_name (- w) = f_name w"
  by (simp add: f_name_def c_abs_neg)

subsection \<open>Format strings without conversions\<close>

lemma printf0_plain: "CHR ''%'' \<notin> set s \<Longrightarrow> printf0 s = Some s"
  by (induction s rule: printf0.induct) auto

subsection \<open>The copy loop\<close>

lemma copy_args_apply:
  "copy_args i argc argv m k = (if i \<le> k \<and> k < argc then Some (Ptr (argv ! k)) else m k)"
proof (induction i argc argv m rule: copy_args.induct)
  case (1 i argc argv m)
  show ?case
  proof (cases "i < argc")
    case True
    have "copy_args i argc argv m k =
        copy_args (i + 1) argc argv (m(i \<mapsto> Ptr (argv ! i))) k"
      using True by (subst copy_args.simps) simp
    also have "\<dots> = (if i + 1 \<le> k \<and> k < argc then Some (Ptr (argv ! k))
                      else (m(i \<mapsto> Ptr (argv ! i))) k)"
      by (rule 1[OF True])
    also have "\<dots> = (if i \<le> k \<and> k < argc then Some (Ptr (argv ! k)) else m k)"
      using True by auto
    finally show ?thesis .
  next
    case False
    then show ?thesis by (subst copy_args.simps) auto
  qed
qed

subsection \<open>Runs that call execv\<close>

text \<open>A run of the compiler wrapper that calls \<^verbatim>\<open>execv\<close> made exactly these calls.\<close>

lemma cw_execv:
  assumes "Execv p v \<in> set (steps (compiler_wrapper_main inst sys argv))"
  shows "\<exists>buf0 out. steps (compiler_wrapper_main inst sys argv) =
            [Getrandom, Fopen (f_name buf0), Fprintf out, Fclose, Execv p v]
          \<and> p = toolchain_tool inst
          \<and> v = copy_args 1 (length argv) argv [0 \<mapsto> Ptr (toolchain_tool inst)]
          \<and> 0 < length argv \<and> write_ok sys \<and> close_ok sys
          \<and> handle (compiler_wrapper_main inst sys argv) = None"
  using assms
  by (auto simp: compiler_wrapper_main_def fclose_ok_def Let_def split: option.splits if_splits)

text \<open>The same for the tool wrapper, whatever \<^verbatim>\<open>mkstemp\<close> does.\<close>

lemma tw_execv:
  assumes "Execv p v \<in> set (steps (tool_wrapper_main mk inst sys argv))"
  shows "\<exists>out. steps (tool_wrapper_main mk inst sys argv) =
            [Mkstemp (chars tool_template), Dprintf out, Close, Execv p v]
          \<and> p = toolchain_tool inst
          \<and> v = copy_args 1 (length argv) argv [0 \<mapsto> Ptr (toolchain_tool inst)]
          \<and> 0 < length argv \<and> close_ok sys
          \<and> handle (tool_wrapper_main mk inst sys argv) = None"
  using assms
  by (auto simp: tool_wrapper_main_def Let_def
      split: option.splits if_splits mkstemp_result.splits)

lemma execv_vector:
  assumes "R = compiler_wrapper_main inst sys argv \<or> R = tool_wrapper_main mk inst sys argv"
    and "Execv p v \<in> set (steps R)"
  shows "p = toolchain_tool inst \<and> 0 < length argv
    \<and> v = copy_args 1 (length argv) argv [0 \<mapsto> Ptr (toolchain_tool inst)]"
  using assms cw_execv tw_execv by blast

text \<open>
  Conversely, when every call before it succeeds and the format is defined, the run
  does call \<^verbatim>\<open>execv\<close> on the toolchain tool with the vector built by the loop.
\<close>

lemma cw_calls_execv:
  assumes "getrandom sys = Some buf0" and "fopen_ok sys (f_name buf0)"
    and "printf0 (native_program inst @ ''\<newline>'') = Some out"
    and "write_ok sys" and "close_ok sys" and "argv \<noteq> []"
  shows "Execv (toolchain_tool inst)
      (copy_args 1 (length argv) argv [0 \<mapsto> Ptr (toolchain_tool inst)])
    \<in> set (steps (compiler_wrapper_main inst sys argv))"
  using assms by (simp add: compiler_wrapper_main_def fclose_ok_def Let_def f_name_no_overflow)

lemma tw_calls_execv:
  assumes "mk (files sys) tool_template = MkFd name"
    and "printf0 (native_program inst @ ''\<newline>'') = Some out"
    and "close_ok sys" and "argv \<noteq> []"
  shows "Execv (toolchain_tool inst)
      (copy_args 1 (length argv) argv [0 \<mapsto> Ptr (toolchain_tool inst)])
    \<in> set (steps (tool_wrapper_main mk inst sys argv))"
  using assms by (simp add: tool_wrapper_main_def Let_def)

subsection \<open>The example invocation\<close>

lemma cw_all_ok_steps:
  "steps (compiler_wrapper_main example_instance all_ok [''wrap'', ''-v'']) =
     [Getrandom, Fopen ''/tmp/tuscan-native-1'', Fprintf ''S\<newline>'', Fclose,
      Execv ''P'' (copy_args 1 (length [''wrap'', ''-v'']) [''wrap'', ''-v''] [0 \<mapsto> Ptr ''P''])]"
  by (simp add: compiler_wrapper_main_def fclose_ok_def example_instance_def all_ok_def f_name_1 Let_def)

lemma tw_all_ok_steps:
  "steps (tool_wrapper_main mkstemp_fd example_instance all_ok [''wrap'', ''-v'']) =
     [Mkstemp ''/tmp/tuscan-native-XXXXXX'', Dprintf ''S\<newline>'', Close,
      Execv ''P'' (copy_args 1 (length [''wrap'', ''-v'']) [''wrap'', ''-v''] [0 \<mapsto> Ptr ''P''])]"
  by (simp add: tool_wrapper_main_def example_instance_def all_ok_def mkstemp_fd_def
      tool_template_def Let_def)

section \<open>The claims\<close>

subsection \<open>The scratch file name fits its buffer\<close>

text \<open>
  Claim C10. In the compiler wrapper, for every 32-bit value of the first random word,
  the name \<^verbatim>\<open>/tmp/tuscan-native-\<close> followed by the decimal rendering of the word's
  absolute value takes at most 31 bytes with its terminator, so it fits the 32 bytes of
  \<^verbatim>\<open>f_name\<close>. The most negative word is its own absolute value and renders with a
  sign as 11 characters, which gives exactly 31 bytes.
\<close>

theorem f_name_fits:
  "length (f_name buf0) + 1 \<le> 31
   \<and> f_name (- 2147483648) = ''/tmp/tuscan-native--2147483648''
   \<and> length (f_name (- 2147483648)) + 1 = 31"
  using f_name_len [of buf0] by (simp add: f_name_int_min)

subsection \<open>The forwarded argument vector\<close>

text \<open>
  The cells that either wrapper stores before it calls \<^verbatim>\<open>execv\<close>: for an argument
  vector of length \<open>n \<ge> 1\<close> they are the cells \<open>0\<close> to \<open>n - 1\<close>, cell 0 points to the
  toolchain tool's path (which is also the path that is executed), and every cell \<open>i\<close>
  with \<open>1 \<le> i \<le> n - 1\<close> holds the pointer of the input at index \<open>i\<close>.
\<close>

lemma stored_cells:
  assumes "1 \<le> length argv"
    and "R = compiler_wrapper_main inst sys argv \<or> R = tool_wrapper_main mk inst sys argv"
    and "Execv p v \<in> set (steps R)"
  shows "p = toolchain_tool inst
    \<and> dom v = {0..<length argv}
    \<and> v 0 = Some (Ptr (toolchain_tool inst))
    \<and> (\<forall>i. 1 \<le> i \<and> i \<le> length argv - 1 \<longrightarrow> v i = Some (Ptr (argv ! i)))"
proof -
  from execv_vector [OF assms(2,3)]
  have p: "p = toolchain_tool inst"
    and v: "v = copy_args 1 (length argv) argv [0 \<mapsto> Ptr (toolchain_tool inst)]"
    by simp_all
  have "dom v = {0..<length argv}"
    using assms(1) by (auto simp: v copy_args_apply dom_def split: if_splits)
  moreover have "v 0 = Some (Ptr (toolchain_tool inst))"
    by (simp add: v copy_args_apply)
  moreover have "\<forall>i. 1 \<le> i \<and> i \<le> length argv - 1 \<longrightarrow> v i = Some (Ptr (argv ! i))"
    using assms(1) by (auto simp: v copy_args_apply)
  ultimately show ?thesis using p by blast
qed

text \<open>
  What \<^verbatim>\<open>execv\<close> reads from the array that the wrappers build: the \<open>n\<close> stored
  pointers, and then whatever the memory after the array holds up to its first null
  pointer. The new image receives a vector of length \<open>n\<close> only if that memory happens
  to begin with a null pointer.
\<close>

lemma scan_argv_stored:
  "scan_argv (map (\<lambda>s. Some (Ptr s)) xs @ cells) =
     map_option ((@) (map Ptr xs)) (scan_argv cells)"
  by (induction xs) (simp_all add: option.map_comp comp_def option.map_ident)

lemma new_argv_cells:
  assumes "0 < length argv"
  shows "map (copy_args 1 (length argv) argv [0 \<mapsto> Ptr tool]) [0..<length argv] =
     map (\<lambda>s. Some (Ptr s)) (tool # tl argv)"
proof (rule nth_equalityI)
  show "length (map (copy_args 1 (length argv) argv [0 \<mapsto> Ptr tool]) [0..<length argv]) =
      length (map (\<lambda>s. Some (Ptr s)) (tool # tl argv))"
    using assms by simp
next
  fix i
  assume "i < length (map (copy_args 1 (length argv) argv [0 \<mapsto> Ptr tool]) [0..<length argv])"
  then have i: "i < length argv" by simp
  then have left: "map (copy_args 1 (length argv) argv [0 \<mapsto> Ptr tool]) [0..<length argv] ! i =
      copy_args 1 (length argv) argv [0 \<mapsto> Ptr tool] i"
    by simp
  have right: "map (\<lambda>s. Some (Ptr s)) (tool # tl argv) ! i = Some (Ptr ((tool # tl argv) ! i))"
    using i by (intro nth_map) simp
  have "copy_args 1 (length argv) argv [0 \<mapsto> Ptr tool] i = Some (Ptr ((tool # tl argv) ! i))"
  proof (cases i)
    case 0
    then show ?thesis by (simp add: copy_args_apply)
  next
    case (Suc j)
    moreover from Suc i have "tl argv ! j = argv ! Suc j"
      by (cases argv) simp_all
    ultimately show ?thesis using i by (simp add: copy_args_apply)
  qed
  with left right
  show "map (copy_args 1 (length argv) argv [0 \<mapsto> Ptr tool]) [0..<length argv] ! i =
      map (\<lambda>s. Some (Ptr s)) (tool # tl argv) ! i"
    by simp
qed

lemma execv_reads_new_argv:
  assumes "0 < length argv"
  shows "execv_reads (length argv) (copy_args 1 (length argv) argv [0 \<mapsto> Ptr tool]) beyond =
     map_option ((@) (map Ptr (tool # tl argv))) (scan_argv (map Some beyond))"
  by (simp only: execv_reads_def new_argv_cells [OF assms] scan_argv_stored)

lemma received_length:
  assumes "0 < length argv"
    and "execv_reads (length argv) (copy_args 1 (length argv) argv [0 \<mapsto> Ptr tool]) beyond =
      Some received"
  shows "(length received = length argv) = (\<exists>cells. beyond = Null # cells)"
proof -
  from assms(2)
  have "map_option ((@) (map Ptr (tool # tl argv))) (scan_argv (map Some beyond)) =
      Some received"
    by (simp only: execv_reads_new_argv [OF assms(1)])
  then obtain rest where rest: "scan_argv (map Some beyond) = Some rest"
    and received: "received = map Ptr (tool # tl argv) @ rest"
    by (cases "scan_argv (map Some beyond)") auto
  have "(rest = []) = (\<exists>cells. beyond = Null # cells)"
  proof (cases beyond)
    case Nil
    then show ?thesis using rest by simp
  next
    case (Cons c cells)
    then show ?thesis using rest by (cases c) auto
  qed
  moreover have "(length received = length argv) = (rest = [])"
    using assms(1) by (cases argv) (auto simp: received)
  ultimately show ?thesis by simp
qed

text \<open>
  Claim C3. For every argument vector of length \<open>n \<ge> 1\<close>, the vector handed to the
  image replacement is to have length \<open>n\<close>, with the toolchain tool's path at index 0
  and the input's elements unchanged at the indices \<open>1\<close> to \<open>n - 1\<close>. The wrappers store
  these \<open>n\<close> pointers but no null pointer after them, and the length of the vector is
  where \<^verbatim>\<open>execv\<close> meets a null pointer. For the compiler wrapper invoked with the
  one argument \<^verbatim>\<open>wrap\<close>: cell 1 of the array was never stored to; when the memory
  after the array holds a pointer to some string and then a null pointer, the new image
  receives two arguments; when that memory holds no null pointer, the call receives
  no vector at all.
\<close>

theorem unterminated_vector:
  "Execv ''P'' (copy_args 1 (length [''wrap'']) [''wrap''] [0 \<mapsto> Ptr ''P''])
     \<in> set (steps (compiler_wrapper_main example_instance all_ok [''wrap'']))
   \<and> (copy_args 1 (length [''wrap'']) [''wrap''] [0 \<mapsto> Ptr ''P'']) 0 = Some (Ptr ''P'')
   \<and> (copy_args 1 (length [''wrap'']) [''wrap''] [0 \<mapsto> Ptr ''P'']) 1 = None
   \<and> execv_reads (length [''wrap''])
        (copy_args 1 (length [''wrap'']) [''wrap''] [0 \<mapsto> Ptr ''P''])
        [Ptr ''x'', Null] = Some [Ptr ''P'', Ptr ''x'']
   \<and> length [Ptr ''P'', Ptr ''x''] \<noteq> length [''wrap'']
   \<and> execv_reads (length [''wrap''])
        (copy_args 1 (length [''wrap'']) [''wrap''] [0 \<mapsto> Ptr ''P''])
        [Ptr ''x''] = None"
  by (simp add: compiler_wrapper_main_def fclose_ok_def example_instance_def all_ok_def
      f_name_1 Let_def copy_args_apply execv_reads_def)

text \<open>
  Claim C8. In both wrappers the array passed to \<^verbatim>\<open>execv\<close> has exactly \<open>argc\<close>
  cells that were stored to, for every \<open>argc \<ge> 1\<close>: cells \<open>0\<close> to \<open>argc - 1\<close> are
  assigned, cell \<open>argc\<close> is never written and no assigned cell is the null pointer, so
  the array does not end with the null pointer that \<^verbatim>\<open>execv\<close> requires.
\<close>

theorem no_null_sentinel:
  assumes "1 \<le> length argv"
    and "R = compiler_wrapper_main inst sys argv \<or> R = tool_wrapper_main mk inst sys argv"
    and "Execv p v \<in> set (steps R)"
  shows "dom v = {0..<length argv}
    \<and> v (length argv) = None
    \<and> Null \<notin> ran v
    \<and> \<not> execv_null_terminated (length argv) v"
proof -
  from execv_vector [OF assms(2,3)]
  have v: "v = copy_args 1 (length argv) argv [0 \<mapsto> Ptr (toolchain_tool inst)]"
    by simp
  have d: "dom v = {0..<length argv}"
    using assms(1) by (auto simp: v copy_args_apply dom_def split: if_splits)
  have n: "v (length argv) = None"
    using assms(1) by (auto simp: v copy_args_apply)
  have r: "Null \<notin> ran v"
    by (auto simp: v copy_args_apply ran_def split: if_splits)
  from d n r show ?thesis by (simp add: execv_null_terminated_def)
qed

theorem no_null_sentinel_witness:
  "1 \<le> length [''wrap'', ''-v'']
   \<and> Execv ''P'' (copy_args 1 (length [''wrap'', ''-v'']) [''wrap'', ''-v''] [0 \<mapsto> Ptr ''P''])
        \<in> set (steps (compiler_wrapper_main example_instance all_ok [''wrap'', ''-v'']))
   \<and> Execv ''P'' (copy_args 1 (length [''wrap'', ''-v'']) [''wrap'', ''-v''] [0 \<mapsto> Ptr ''P''])
        \<in> set (steps (tool_wrapper_main mkstemp_fd example_instance all_ok [''wrap'', ''-v'']))
   \<and> dom (copy_args 1 (length [''wrap'', ''-v'']) [''wrap'', ''-v''] [0 \<mapsto> Ptr ''P'']) = {0..<2}
   \<and> (copy_args 1 (length [''wrap'', ''-v'']) [''wrap'', ''-v''] [0 \<mapsto> Ptr ''P'']) 0 = Some (Ptr ''P'')
   \<and> (copy_args 1 (length [''wrap'', ''-v'']) [''wrap'', ''-v''] [0 \<mapsto> Ptr ''P'']) 1 = Some (Ptr ''-v'')
   \<and> (copy_args 1 (length [''wrap'', ''-v'']) [''wrap'', ''-v''] [0 \<mapsto> Ptr ''P'']) 2 = None
   \<and> Null \<notin> ran (copy_args 1 (length [''wrap'', ''-v'']) [''wrap'', ''-v''] [0 \<mapsto> Ptr ''P''])
   \<and> \<not> execv_null_terminated 2 (copy_args 1 (length [''wrap'', ''-v'']) [''wrap'', ''-v''] [0 \<mapsto> Ptr ''P''])"
proof -
  have len: "1 \<le> length [''wrap'', ''-v'']" by simp
  have reach: "Execv ''P'' (copy_args 1 (length [''wrap'', ''-v'']) [''wrap'', ''-v''] [0 \<mapsto> Ptr ''P''])
      \<in> set (steps (compiler_wrapper_main example_instance all_ok [''wrap'', ''-v'']))"
    by (simp add: cw_all_ok_steps)
  have reach_tw: "Execv ''P'' (copy_args 1 (length [''wrap'', ''-v'']) [''wrap'', ''-v''] [0 \<mapsto> Ptr ''P''])
      \<in> set (steps (tool_wrapper_main mkstemp_fd example_instance all_ok [''wrap'', ''-v'']))"
    by (simp add: tw_all_ok_steps)
  have cells: "(copy_args 1 (length [''wrap'', ''-v'']) [''wrap'', ''-v''] [0 \<mapsto> Ptr ''P'']) 0 = Some (Ptr ''P'')" "(copy_args 1 (length [''wrap'', ''-v'']) [''wrap'', ''-v''] [0 \<mapsto> Ptr ''P'']) 1 = Some (Ptr ''-v'')"
    by (simp_all add: copy_args_apply)
  from no_null_sentinel [OF len disjI1 [OF refl] reach]
    no_null_sentinel [OF len disjI2 [OF refl] reach_tw]
  show ?thesis using len reach reach_tw cells by (simp add: numeral_2_eq_2)
qed

subsection \<open>Record, then redirect\<close>

text \<open>
  Claim C4. In every run of a wrapper, \<^verbatim>\<open>execv\<close> is not called before the record
  has been written and the scratch handle closed: whenever the run calls
  \<^verbatim>\<open>execv\<close>, its calls end with the write of the record, the close of the scratch
  handle and the \<^verbatim>\<open>execv\<close>, in this order, with no earlier \<^verbatim>\<open>execv\<close> or close;
  the close returned success and no scratch handle is open.
\<close>

theorem record_then_redirect:
  assumes "R = compiler_wrapper_main inst sys argv \<or> R = tool_wrapper_main mk inst sys argv"
    and "Execv p v \<in> set (steps R)"
  shows "\<exists>pre w c. steps R = pre @ [w, c, Execv p v]
    \<and> writes_record w \<and> closes_record c
    \<and> \<not> list_ex is_execv pre \<and> \<not> list_ex closes_record pre
    \<and> close_ok sys \<and> handle R = None"
  using assms(1)
proof
  assume R: "R = compiler_wrapper_main inst sys argv"
  from cw_execv [of p v inst sys argv] assms(2) R
  obtain buf0 out where
    st: "steps R = [Getrandom, Fopen (f_name buf0)] @ [Fprintf out, Fclose, Execv p v]"
    and rest: "close_ok sys" "handle R = None"
    by auto
  show ?thesis
    by (rule exI [of _ "[Getrandom, Fopen (f_name buf0)]"], rule exI [of _ "Fprintf out"],
        rule exI [of _ Fclose]) (simp add: st rest)
next
  assume R: "R = tool_wrapper_main mk inst sys argv"
  from tw_execv [of p v mk inst sys argv] assms(2) R
  obtain out where
    st: "steps R = [Mkstemp (chars tool_template)] @ [Dprintf out, Close, Execv p v]"
    and rest: "close_ok sys" "handle R = None"
    by auto
  show ?thesis
    by (rule exI [of _ "[Mkstemp (chars tool_template)]"], rule exI [of _ "Dprintf out"],
        rule exI [of _ Close]) (simp add: st rest)
qed

theorem record_then_redirect_witness:
  "Execv ''P'' (copy_args 1 (length [''wrap'', ''-v'']) [''wrap'', ''-v''] [0 \<mapsto> Ptr ''P''])
     \<in> set (steps (compiler_wrapper_main example_instance all_ok [''wrap'', ''-v'']))
   \<and> (\<exists>pre w c. steps (compiler_wrapper_main example_instance all_ok [''wrap'', ''-v'']) =
         pre @ [w, c, Execv ''P'' (copy_args 1 (length [''wrap'', ''-v'']) [''wrap'', ''-v''] [0 \<mapsto> Ptr ''P''])]
       \<and> writes_record w \<and> closes_record c
       \<and> \<not> list_ex is_execv pre \<and> \<not> list_ex closes_record pre
       \<and> close_ok all_ok
       \<and> handle (compiler_wrapper_main example_instance all_ok [''wrap'', ''-v'']) = None)
   \<and> Execv ''P'' (copy_args 1 (length [''wrap'', ''-v'']) [''wrap'', ''-v''] [0 \<mapsto> Ptr ''P''])
     \<in> set (steps (tool_wrapper_main mkstemp_fd example_instance all_ok [''wrap'', ''-v'']))"
proof -
  have reach: "Execv ''P'' (copy_args 1 (length [''wrap'', ''-v'']) [''wrap'', ''-v''] [0 \<mapsto> Ptr ''P''])
      \<in> set (steps (compiler_wrapper_main example_instance all_ok [''wrap'', ''-v'']))"
    by (simp add: cw_all_ok_steps)
  have reach_tw: "Execv ''P'' (copy_args 1 (length [''wrap'', ''-v'']) [''wrap'', ''-v''] [0 \<mapsto> Ptr ''P''])
      \<in> set (steps (tool_wrapper_main mkstemp_fd example_instance all_ok [''wrap'', ''-v'']))"
    by (simp add: tw_all_ok_steps)
  from record_then_redirect [OF disjI1 [OF refl] reach] reach reach_tw
  show ?thesis by blast
qed

text \<open>
  Claim C1. When the record has been written and closed and the image replacement then
  fails, the wrapper is to exit with a non-zero status, status 0 arising only through a
  successful image replacement. Neither wrapper looks at what \<^verbatim>\<open>execv\<close> returns:
  on the example invocation with a toolchain tool that cannot be executed, the record
  is written and closed, \<^verbatim>\<open>execv\<close> is called, nothing is reported, control reaches
  the closing brace of \<^verbatim>\<open>main\<close> and the exit status is 0.
\<close>

theorem exec_failure_exit_status:
  "steps (compiler_wrapper_main example_instance (all_ok\<lparr>execv_ok := \<lambda>path. False\<rparr>) [''wrap'', ''-v'']) =
     [Getrandom, Fopen ''/tmp/tuscan-native-1'', Fprintf ''S\<newline>'', Fclose,
      Execv ''P'' (copy_args 1 (length [''wrap'', ''-v'']) [''wrap'', ''-v''] [0 \<mapsto> Ptr ''P''])]
   \<and> result (compiler_wrapper_main example_instance (all_ok\<lparr>execv_ok := \<lambda>path. False\<rparr>) [''wrap'', ''-v'']) = EndOfMain
   \<and> exit_status (result (compiler_wrapper_main example_instance (all_ok\<lparr>execv_ok := \<lambda>path. False\<rparr>)
        [''wrap'', ''-v''])) = Some 0
   \<and> steps (tool_wrapper_main mkstemp_fd example_instance (all_ok\<lparr>execv_ok := \<lambda>path. False\<rparr>) [''wrap'', ''-v'']) =
     [Mkstemp ''/tmp/tuscan-native-XXXXXX'', Dprintf ''S\<newline>'', Close,
      Execv ''P'' (copy_args 1 (length [''wrap'', ''-v'']) [''wrap'', ''-v''] [0 \<mapsto> Ptr ''P''])]
   \<and> result (tool_wrapper_main mkstemp_fd example_instance (all_ok\<lparr>execv_ok := \<lambda>path. False\<rparr>) [''wrap'', ''-v'']) =
       EndOfMain
   \<and> exit_status (result (tool_wrapper_main mkstemp_fd example_instance (all_ok\<lparr>execv_ok := \<lambda>path. False\<rparr>)
        [''wrap'', ''-v''])) = Some 0"
  by (simp add: compiler_wrapper_main_def fclose_ok_def tool_wrapper_main_def example_instance_def
      all_ok_def mkstemp_fd_def tool_template_def f_name_1 Let_def)

subsection \<open>Failures while recording\<close>

text \<open>
  Every \<^verbatim>\<open>exit\<close> or \<^verbatim>\<open>return\<close> of the wrappers' own has status 1, directly follows
  a \<^verbatim>\<open>perror\<close> and happens in a run without \<^verbatim>\<open>execv\<close>; a failed allocation and a
  failed close both end this way.
\<close>

lemma exit_is_reported:
  assumes "R = compiler_wrapper_main inst sys argv \<or> R = tool_wrapper_main mk inst sys argv"
    and "result R = Exit n"
  shows "n = 1 \<and> (\<exists>msg. last (steps R) = Perror msg) \<and> \<not> list_ex is_execv (steps R)"
  using assms
  by (auto simp: compiler_wrapper_main_def fclose_ok_def tool_wrapper_main_def Let_def
      split: option.splits if_splits mkstemp_result.splits)

lemma allocation_failure_cw:
  assumes "getrandom sys = None
    \<or> (\<exists>buf0. getrandom sys = Some buf0 \<and> \<not> fopen_ok sys (f_name buf0))"
  shows "result (compiler_wrapper_main inst sys argv) = Exit 1"
  using assms
  by (auto simp: compiler_wrapper_main_def fclose_ok_def Let_def f_name_no_overflow split: option.splits)

lemma allocation_failure_tw:
  assumes "mk (files sys) tool_template = MkError"
  shows "result (tool_wrapper_main mk inst sys argv) = Exit 1"
  using assms by (simp add: tool_wrapper_main_def)

lemma close_failure:
  assumes "R = compiler_wrapper_main inst sys argv \<or> R = tool_wrapper_main mk inst sys argv"
    and "Fclose \<in> set (steps R) \<or> Close \<in> set (steps R)"
    and "\<not> close_ok sys"
  shows "result R = Exit 1"
  using assms
  by (auto simp: compiler_wrapper_main_def fclose_ok_def tool_wrapper_main_def Let_def
      split: option.splits if_splits mkstemp_result.splits)

text \<open>
  In the compiler wrapper a write that fails is noticed by \<^verbatim>\<open>fclose\<close>, which flushes
  the buffered record: the run reports \<^verbatim>\<open>fclose\<close> and exits with status 1 without
  calling \<^verbatim>\<open>execv\<close>.
\<close>

lemma write_failure_cw:
  assumes "getrandom sys = Some buf0" and "fopen_ok sys (f_name buf0)"
    and "printf0 (native_program inst @ ''\<newline>'') = Some out"
    and "\<not> write_ok sys"
  shows "steps (compiler_wrapper_main inst sys argv) =
      [Getrandom, Fopen (f_name buf0), Fprintf out, Fclose,
       Perror ''tuscan: compiler wrapper: fclose'']
    \<and> result (compiler_wrapper_main inst sys argv) = Exit 1"
  using assms
  by (simp add: compiler_wrapper_main_def fclose_ok_def Let_def f_name_no_overflow)

text \<open>
  Claim C6. When the allocation of the scratch file, the write of the record or the
  close of the scratch file fails, the wrapper is to report the failing operation on
  standard error and exit with status 1 without attempting the redirect. The compiler
  wrapper does so. In the tool wrapper the allocation never succeeds and is never
  reported: \<^verbatim>\<open>mkstemp\<close> faults while storing into the string literal, so on the
  example invocation, with a free candidate name in a directory that permits creating
  it, no file is created, there is no \<^verbatim>\<open>perror\<close>, no \<^verbatim>\<open>execv\<close>, and the process
  does not exit with status 1: it is ended by the fault.
\<close>

theorem allocation_fault_unreported:
  "steps (tool_wrapper_main (mkstemp_posix [''a1B2c3''] (\<lambda>path. True)) example_instance all_ok
       [''wrap'', ''-v'']) = [Mkstemp ''/tmp/tuscan-native-XXXXXX'']
   \<and> disk (tool_wrapper_main (mkstemp_posix [''a1B2c3''] (\<lambda>path. True)) example_instance
       all_ok [''wrap'', ''-v'']) ''/tmp/tuscan-native-a1B2c3'' = None
   \<and> result (tool_wrapper_main (mkstemp_posix [''a1B2c3''] (\<lambda>path. True)) example_instance
       all_ok [''wrap'', ''-v'']) = Fault
   \<and> exit_status (result (tool_wrapper_main (mkstemp_posix [''a1B2c3''] (\<lambda>path. True))
       example_instance all_ok [''wrap'', ''-v''])) \<noteq> Some 1"
  by (simp add: tool_wrapper_main_def mkstemp_posix_def tool_template_def all_ok_def)

subsection \<open>The name and the creation of the scratch file\<close>

text \<open>
  Claim C2. Two invocations that both allocate a scratch record are to use distinct file
  names; in particular distinct random words are never to give the same name. In the
  compiler wrapper the name is the absolute value of the random word, so the distinct
  words \<open>1\<close> and \<open>-1\<close> give the same name, and two invocations that draw them, the
  second started on the files the first left, both open that name and both go on to
  \<^verbatim>\<open>execv\<close>.
\<close>

theorem abs_name_collision:
  "(1 :: 32 word) \<noteq> - 1
   \<and> f_name 1 = ''/tmp/tuscan-native-1''
   \<and> f_name (- 1) = ''/tmp/tuscan-native-1''
   \<and> steps (compiler_wrapper_main example_instance all_ok [''wrap'', ''-v'']) ! 1
       = Fopen ''/tmp/tuscan-native-1''
   \<and> is_execv (last (steps (compiler_wrapper_main example_instance all_ok
        [''wrap'', ''-v''])))
   \<and> steps (compiler_wrapper_main example_instance
        (all_ok\<lparr>getrandom := Some (- 1),
           files := disk (compiler_wrapper_main example_instance all_ok [''wrap'', ''-v''])\<rparr>)
        [''wrap'', ''-v'']) ! 1
       = Fopen ''/tmp/tuscan-native-1''
   \<and> is_execv (last (steps (compiler_wrapper_main example_instance
        (all_ok\<lparr>getrandom := Some (- 1),
           files := disk (compiler_wrapper_main example_instance all_ok [''wrap'', ''-v''])\<rparr>)
        [''wrap'', ''-v''])))"
  by (simp add: compiler_wrapper_main_def fclose_ok_def example_instance_def
      all_ok_def f_name_1 f_name_minus_1 Let_def)

text \<open>\<^verbatim>\<open>mkstemp\<close> as described never returns the name of a file that exists.\<close>

lemma mkstemp_posix_exclusive:
  "mkstemp_posix suffixes creatable fs t = MkFd name \<Longrightarrow> fs name = None"
  by (auto simp: mkstemp_posix_def Let_def find_Some_iff split: if_splits option.splits)

text \<open>
  Claim C5. Every wrapper is to allocate its scratch file with an atomic exclusive
  create, with a high-entropy suffix and a bounded number of retries on a name
  collision, so that a file that already has the chosen name is never silently opened
  or overwritten. The compiler wrapper calls \<^verbatim>\<open>fopen\<close> with mode \<^verbatim>\<open>"w"\<close> once:
  when \<^verbatim>\<open>/tmp/tuscan-native-1\<close> already holds the record \<^verbatim>\<open>ld\<close> and the random
  word is 1, the run opens that file, makes no second attempt, reports nothing and
  replaces the earlier record with its own.
\<close>

theorem fopen_overwrites_existing:
  "files (all_ok\<lparr>files := [''/tmp/tuscan-native-1'' \<mapsto> ''ld\<newline>'']\<rparr>) ''/tmp/tuscan-native-1'' = Some ''ld\<newline>''
   \<and> steps (compiler_wrapper_main example_instance (all_ok\<lparr>files := [''/tmp/tuscan-native-1'' \<mapsto> ''ld\<newline>'']\<rparr>) [''wrap'', ''-v'']) =
     [Getrandom, Fopen ''/tmp/tuscan-native-1'', Fprintf ''S\<newline>'', Fclose,
      Execv ''P'' (copy_args 1 (length [''wrap'', ''-v'']) [''wrap'', ''-v''] [0 \<mapsto> Ptr ''P''])]
   \<and> disk (compiler_wrapper_main example_instance (all_ok\<lparr>files := [''/tmp/tuscan-native-1'' \<mapsto> ''ld\<newline>'']\<rparr>) [''wrap'', ''-v''])
        ''/tmp/tuscan-native-1'' = Some ''S\<newline>''"
  by (simp add: compiler_wrapper_main_def fclose_ok_def example_instance_def
      all_ok_def f_name_1 Let_def)

text \<open>
  Claim C9. In the tool wrapper the template given to \<^verbatim>\<open>mkstemp\<close> is a string
  literal, which the program must not store into, while \<^verbatim>\<open>mkstemp\<close> replaces the
  trailing \<^verbatim>\<open>XXXXXX\<close> of its argument in place. With \<^verbatim>\<open>mkstemp\<close> as described,
  every invocation, whatever the candidate suffixes, the permissions, the files, the
  instance and the arguments, faults at that store: the run consists of the call of
  \<^verbatim>\<open>mkstemp\<close> alone, and the branch in which a descriptor was returned is never
  entered.
\<close>

theorem mkstemp_on_literal:
  "writable tool_template = False
   \<and> mkstemp_posix suffixes creatable fs tool_template = MkFault
   \<and> steps (tool_wrapper_main (mkstemp_posix suffixes creatable) inst sys argv) =
       [Mkstemp ''/tmp/tuscan-native-XXXXXX'']
   \<and> disk (tool_wrapper_main (mkstemp_posix suffixes creatable) inst sys argv) = files sys
   \<and> result (tool_wrapper_main (mkstemp_posix suffixes creatable) inst sys argv) = Fault"
  by (simp add: tool_wrapper_main_def mkstemp_posix_def tool_template_def)

subsection \<open>The contents of the record\<close>

text \<open>
  When the native program's name holds no percent sign and every call succeeds, the
  record is the name followed by one newline, and the image is the toolchain tool with
  the forwarded vector.
\<close>

lemma record_plain_cw:
  assumes "CHR ''%'' \<notin> set (native_program inst)"
    and "getrandom sys = Some buf0" and "fopen_ok sys (f_name buf0)"
    and "write_ok sys" and "close_ok sys" and "execv_ok sys (toolchain_tool inst)"
    and "argv \<noteq> []"
  shows "disk (compiler_wrapper_main inst sys argv) (f_name buf0) =
      Some (native_program inst @ ''\<newline>'')
    \<and> result (compiler_wrapper_main inst sys argv) =
      Image (toolchain_tool inst)
        (copy_args 1 (length argv) argv [0 \<mapsto> Ptr (toolchain_tool inst)])"
proof -
  have "printf0 (native_program inst @ ''\<newline>'') = Some (native_program inst @ ''\<newline>'')"
    using assms(1) by (intro printf0_plain) simp
  then show ?thesis
    using assms(2-7)
    by (simp add: compiler_wrapper_main_def fclose_ok_def Let_def f_name_no_overflow)
qed

lemma record_plain_tw:
  assumes "CHR ''%'' \<notin> set (native_program inst)"
    and "mk (files sys) tool_template = MkFd name"
    and "write_ok sys" and "close_ok sys" and "execv_ok sys (toolchain_tool inst)"
    and "argv \<noteq> []"
  shows "disk (tool_wrapper_main mk inst sys argv) name =
      Some (native_program inst @ ''\<newline>'')
    \<and> result (tool_wrapper_main mk inst sys argv) =
      Image (toolchain_tool inst)
        (copy_args 1 (length argv) argv [0 \<mapsto> Ptr (toolchain_tool inst)])"
proof -
  have "printf0 (native_program inst @ ''\<newline>'') = Some (native_program inst @ ''\<newline>'')"
    using assms(1) by (intro printf0_plain) simp
  then show ?thesis
    using assms(2-6)
    by (simp add: tool_wrapper_main_def Let_def)
qed

text \<open>
  Claim C7. For every successful invocation with native program name \<open>S\<close>, the record
  is to hold exactly \<open>S\<close> followed by one newline, and the image is to be the toolchain
  tool \<open>P\<close> with the forwarded vector (\<open>P\<close>, \<^verbatim>\<open>-v\<close> for the input \<^verbatim>\<open>wrap\<close>,
  \<^verbatim>\<open>-v\<close>). Both wrappers pass the name as part of the format string, so a name with
  a percent sign is not written as it is: for the name \<^verbatim>\<open>%%\<close>, with every call
  succeeding, the image is \<open>P\<close> with the forwarded vector, but the record holds a
  single percent sign and a newline.
\<close>

theorem percent_in_name:
  "native_program percent_instance = ''%%''
   \<and> result (compiler_wrapper_main percent_instance all_ok [''wrap'', ''-v'']) =
       Image ''P'' (copy_args 1 (length [''wrap'', ''-v'']) [''wrap'', ''-v''] [0 \<mapsto> Ptr ''P''])
   \<and> (copy_args 1 (length [''wrap'', ''-v'']) [''wrap'', ''-v''] [0 \<mapsto> Ptr ''P'']) 0 = Some (Ptr ''P'')
   \<and> (copy_args 1 (length [''wrap'', ''-v'']) [''wrap'', ''-v''] [0 \<mapsto> Ptr ''P'']) 1 = Some (Ptr ''-v'')
   \<and> disk (compiler_wrapper_main percent_instance all_ok [''wrap'', ''-v''])
        ''/tmp/tuscan-native-1'' = Some ''%\<newline>''
   \<and> ''%\<newline>'' \<noteq> native_program percent_instance @ ''\<newline>''
   \<and> result (tool_wrapper_main mkstemp_fd percent_instance all_ok [''wrap'', ''-v'']) =
       Image ''P'' (copy_args 1 (length [''wrap'', ''-v'']) [''wrap'', ''-v''] [0 \<mapsto> Ptr ''P''])
   \<and> disk (tool_wrapper_main mkstemp_fd percent_instance all_ok [''wrap'', ''-v''])
        ''/tmp/tuscan-native-a1B2c3'' = Some ''%\<newline>''"
  by (simp add: compiler_wrapper_main_def fclose_ok_def tool_wrapper_main_def percent_instance_def
      all_ok_def mkstemp_fd_def tool_template_def f_name_1 Let_def copy_args_apply)

end
